theory Spec2Isabelle
  imports Main "HOL-Library.Sublist"
begin

section \<open>Values exchanged with the upstream API\<close>

text \<open>
  The adapter handles whatever \<^verbatim>\<open>resp.json()\<close> decodes. A Python \<^verbatim>\<open>dict\<close> keeps its
  keys in insertion order, so an object is an association list; a float is carried as its
  mantissa and binary exponent, since the code only ever passes it along.
\<close>

datatype json =
    JNull
  | JBool bool
  | JInt int
  | JFloat int int
  | JStr string
  | JList "json list"
  | JObj "(string \<times> json) list"

type_synonym dict = "(string \<times> json) list"

datatype py_error =
    TypeError
  | KeyError string
  | AttributeError
  | RuntimeError string
  | HTTPStatusError nat
  | TransportError
  | TimeoutException
  | JSONDecodeError

text \<open>Sequencing of computations that may raise: the first exception wins.\<close>

definition bindE :: "py_error + 'a \<Rightarrow> ('a \<Rightarrow> py_error + 'b) \<Rightarrow> py_error + 'b" where
  "bindE m f = (case m of Inl e \<Rightarrow> Inl e | Inr x \<Rightarrow> f x)"

fun mapE :: "('a \<Rightarrow> py_error + 'b) \<Rightarrow> 'a list \<Rightarrow> py_error + 'b list" where
  "mapE f [] = Inr []"
| "mapE f (x # xs) = bindE (f x) (\<lambda>y. bindE (mapE f xs) (\<lambda>ys. Inr (y # ys)))"

subsection \<open>The Python operations the code applies to decoded values\<close>

definition keys :: "dict \<Rightarrow> string list" where
  "keys d = map fst d"

text \<open>\<^verbatim>\<open>d[k] = v\<close>: an existing key keeps its position, a new key goes last.\<close>

fun dict_set :: "dict \<Rightarrow> string \<Rightarrow> json \<Rightarrow> dict" where
  "dict_set [] k v = [(k, v)]"
| "dict_set ((k', v') # d) k v =
     (if k' = k then (k, v) # d else (k', v') # dict_set d k v)"

text \<open>\<^verbatim>\<open>k in item\<close> for a string \<open>k\<close>.\<close>

fun py_contains :: "json \<Rightarrow> string \<Rightarrow> py_error + bool" where
  "py_contains (JObj d) k = Inr (k \<in> set (keys d))"
| "py_contains (JList xs) k = Inr (JStr k \<in> set xs)"
| "py_contains (JStr s) k = Inr (sublist k s)"
| "py_contains _ k = Inl TypeError"

text \<open>\<^verbatim>\<open>item[k]\<close> for a string \<open>k\<close>.\<close>

fun py_getitem :: "json \<Rightarrow> string \<Rightarrow> py_error + json" where
  "py_getitem (JObj d) k = (case map_of d k of Some v \<Rightarrow> Inr v | None \<Rightarrow> Inl (KeyError k))"
| "py_getitem _ k = Inl TypeError"

text \<open>\<^verbatim>\<open>item.get(k)\<close>: only a dict has the method.\<close>

fun py_get :: "json \<Rightarrow> string \<Rightarrow> py_error + json" where
  "py_get (JObj d) k = Inr (case map_of d k of Some v \<Rightarrow> v | None \<Rightarrow> JNull)"
| "py_get _ k = Inl AttributeError"

text \<open>\<^verbatim>\<open>for x in v\<close>: a dict yields its keys, a string its characters.\<close>

fun py_iter :: "json \<Rightarrow> py_error + json list" where
  "py_iter (JList xs) = Inr xs"
| "py_iter (JObj d) = Inr (map JStr (keys d))"
| "py_iter (JStr s) = Inr (map (\<lambda>c. JStr [c]) s)"
| "py_iter _ = Inl TypeError"

text \<open>Truth value of a decoded value, as \<^verbatim>\<open>if v:\<close> takes it.\<close>

fun py_truthy :: "json \<Rightarrow> bool" where
  "py_truthy JNull = False"
| "py_truthy (JBool b) = b"
| "py_truthy (JInt i) = (i \<noteq> 0)"
| "py_truthy (JFloat m e) = (m \<noteq> 0)"
| "py_truthy (JStr s) = (s \<noteq> [])"
| "py_truthy (JList xs) = (xs \<noteq> [])"
| "py_truthy (JObj d) = (d \<noteq> [])"

section \<open>models.py: response shapers\<close>

definition X402_BASE :: string where
  "X402_BASE = ''https://api.itsgloria.ai''"

definition FREE_NEWS_FIELDS :: "string list" where
  "FREE_NEWS_FIELDS =
     [''id'', ''signal'', ''sentiment'', ''sentiment_value'', ''timestamp'',
      ''feed_categories'', ''sources'', ''author'', ''tokens'', ''tweet_url'']"

text \<open>
  The dict comprehension \<^verbatim>\<open>{k: item[k] for k in FREE_NEWS_FIELDS if k in item}\<close>: the
  fields are visited in the order of the allow-list and stored into the dict built so far.
\<close>

fun comprehend :: "json \<Rightarrow> string list \<Rightarrow> dict \<Rightarrow> py_error + dict" where
  "comprehend item [] acc = Inr acc"
| "comprehend item (k # ks) acc =
     bindE (py_contains item k) (\<lambda>present.
       if present
       then bindE (py_getitem item k) (\<lambda>v. comprehend item ks (dict_set acc k v))
       else comprehend item ks acc)"

definition truncate_news :: "json \<Rightarrow> py_error + json" where
  "truncate_news item = bindE (comprehend item FREE_NEWS_FIELDS []) (\<lambda>d. Inr (JObj d))"

definition format_recap :: "json \<Rightarrow> py_error + json" where
  "format_recap item =
     bindE (py_get item ''feed_category'') (\<lambda>fc.
     bindE (py_get item ''timeframe'') (\<lambda>tf.
     bindE (py_get item ''recap'') (\<lambda>rc.
     bindE (py_get item ''created_at'') (\<lambda>ca.
       Inr (JObj [(''feed_category'', fc), (''timeframe'', tf),
                  (''recap'', rc), (''created_at'', ca)])))))"

text \<open>The two payment descriptions are literals; \<open>apo\<close> is the apostrophe and \<open>em_dash\<close>
  the UTF-8 encoding of the dash used in the price line.\<close>

definition apo :: string where
  "apo = [CHR 0x27]"

definition em_dash :: string where
  "em_dash = [CHR 0xE2, CHR 0x80, CHR 0x94]"

definition how_to_pay_text :: string where
  "how_to_pay_text =
     ''Send a GET request to the endpoint. You'' @ apo @ ''ll receive an HTTP 402 '' @
     ''response with payment details. Complete the USDC payment on Base '' @
     ''network, then retry with the payment proof header.''"

definition price_text :: string where
  "price_text = ''USDC on Base '' @ em_dash @ '' exact amount returned in HTTP 402 response''"

definition enriched_news_payment_info :: json where
  "enriched_news_payment_info = JObj
     [(''payment_required'', JBool True),
      (''protocol'', JStr ''x402''),
      (''description'', JStr
         (''Get enriched news with full AI-generated context, entity analysis, '' @
          ''and token mentions. Includes long_context and short_context fields '' @
          ''omitted from the free tier.'')),
      (''endpoint'', JStr (X402_BASE @ ''/news'')),
      (''method'', JStr ''GET''),
      (''required_params'', JObj
         [(''feed_categories'', JStr
             (''Category code (e.g. '' @ apo @ ''bitcoin'' @ apo @ '', '' @ apo @ ''defi'' @ apo @
              '', '' @ apo @ ''ai'' @ apo @ '')''))]),
      (''optional_params'', JObj
         [(''from_date'', JStr ''YYYY-MM-DD''),
          (''to_date'', JStr ''YYYY-MM-DD''),
          (''limit'', JStr ''1-10, default 10''),
          (''page'', JStr ''Page number, default 1'')]),
      (''price'', JStr price_text),
      (''how_to_pay'', JStr how_to_pay_text)]"

definition ticker_summary_payment_info :: json where
  "ticker_summary_payment_info = JObj
     [(''payment_required'', JBool True),
      (''protocol'', JStr ''x402''),
      (''description'', JStr
         (''Get a comprehensive 24-hour AI-generated summary for any crypto '' @
          ''ticker or topic. Combines Gloria'' @ apo @ ''s curated news with web search '' @
          ''for decision-grade bullet points.'')),
      (''endpoint'', JStr (X402_BASE @ ''/news-ticker-summary'')),
      (''method'', JStr ''GET''),
      (''required_params'', JObj
         [(''ticker'', JStr
             (''Ticker symbol or topic name (e.g. '' @ apo @ ''SOL'' @ apo @ '', '' @ apo @
              ''LayerZero'' @ apo @ '', '' @ apo @ ''ETH'' @ apo @ '')''))]),
      (''price'', JStr price_text),
      (''how_to_pay'', JStr how_to_pay_text)]"

section \<open>client.py: the HTTP client\<close>

text \<open>
  An \<^verbatim>\<open>httpx.AsyncClient\<close> is a session: \<open>sid\<close> numbers the sessions in the order they
  were constructed. A request names the session that sent it. The upstream API answers a
  request, given the requests issued before it, with a reply: no response at all (the
  exception raised by the transport), or a status code and a body that decodes or not.
\<close>

record AsyncClient =
  sid :: nat
  ac_base_url :: string
  ac_timeout :: nat
  is_closed :: bool

record request =
  rq_session :: nat
  rq_base_url :: string
  rq_path :: string
  rq_params :: dict

datatype reply = Failed py_error | Reply nat "json option"

record net =
  upstream :: "request list \<Rightarrow> request \<Rightarrow> reply"
  sent :: "request list"
  sessions_created :: nat

record GloriaClient =
  gc_base_url :: string
  gc_token :: string
  gc_http :: "AsyncClient option"

text \<open>\<^verbatim>\<open>s.rstrip("/")\<close>\<close>

definition rstrip_slash :: "string \<Rightarrow> string" where
  "rstrip_slash s = rev (dropWhile (\<lambda>c. c = CHR ''/'') (rev s))"

definition GloriaClient_init :: "string \<Rightarrow> string \<Rightarrow> GloriaClient" where
  "GloriaClient_init base_url token =
     \<lparr>gc_base_url = rstrip_slash base_url, gc_token = token, gc_http = None\<rparr>"

text \<open>\<^verbatim>\<open>httpx.AsyncClient(base_url=..., timeout=30.0)\<close>\<close>

definition new_session :: "GloriaClient \<Rightarrow> net \<Rightarrow> AsyncClient \<times> GloriaClient \<times> net" where
  "new_session self n =
     (let h = \<lparr>sid = sessions_created n, ac_base_url = gc_base_url self,
                ac_timeout = 30, is_closed = False\<rparr>
      in (h, self\<lparr>gc_http := Some h\<rparr>, n\<lparr>sessions_created := Suc (sessions_created n)\<rparr>))"

text \<open>\<^verbatim>\<open>GloriaClient._client\<close>\<close>

definition GloriaClient_client :: "GloriaClient \<Rightarrow> net \<Rightarrow> AsyncClient \<times> GloriaClient \<times> net" where
  "GloriaClient_client self n =
     (case gc_http self of
        None \<Rightarrow> new_session self n
      | Some h \<Rightarrow> if is_closed h then new_session self n else (h, self, n))"

text \<open>\<^verbatim>\<open>client.get(path, params=params)\<close>: httpx refuses to send on a closed session.\<close>

definition AsyncClient_get :: "AsyncClient \<Rightarrow> string \<Rightarrow> dict \<Rightarrow> net \<Rightarrow> reply \<times> net" where
  "AsyncClient_get h path params n =
     (if is_closed h
      then (Failed (RuntimeError ''Cannot send a request, as the client has been closed.''), n)
      else (let rq = \<lparr>rq_session = sid h, rq_base_url = ac_base_url h,
                       rq_path = path, rq_params = params\<rparr>
            in (upstream n (sent n) rq, n\<lparr>sent := sent n @ [rq]\<rparr>)))"

text \<open>\<^verbatim>\<open>resp.raise_for_status(); return resp.json()\<close>\<close>

fun decode :: "reply \<Rightarrow> py_error + json" where
  "decode (Failed e) = Inl e"
| "decode (Reply status body) =
     (if 200 \<le> status \<and> status \<le> 299
      then (case body of Some j \<Rightarrow> Inr j | None \<Rightarrow> Inl JSONDecodeError)
      else Inl (HTTPStatusError status))"

text \<open>\<^verbatim>\<open>GloriaClient._get\<close>\<close>

definition GloriaClient_get ::
  "GloriaClient \<Rightarrow> string \<Rightarrow> dict option \<Rightarrow> net \<Rightarrow> (py_error + json) \<times> GloriaClient \<times> net" where
  "GloriaClient_get self path params n =
     (case GloriaClient_client self n of
        (client, self', n') \<Rightarrow>
          (let params1 = (case params of None \<Rightarrow> [] | Some p \<Rightarrow> if p = [] then [] else p);
               params2 = dict_set params1 ''token'' (JStr (gc_token self'))
           in case AsyncClient_get client path params2 n' of
                (resp, n'') \<Rightarrow> (decode resp, self', n'')))"

text \<open>
  \<^verbatim>\<open>GloriaClient.get_news\<close>. Its two tests, \<^verbatim>\<open>if category:\<close> and \<^verbatim>\<open>if keyword:\<close>, hold
  for a string that is not empty.
\<close>

fun add_filter :: "dict \<Rightarrow> string \<Rightarrow> string option \<Rightarrow> dict" where
  "add_filter params name None = params"
| "add_filter params name (Some s) =
     (if s \<noteq> [] then dict_set params name (JStr s) else params)"

definition news_params :: "string option \<Rightarrow> string option \<Rightarrow> int \<Rightarrow> dict" where
  "news_params category keyword limit =
     (let params = [(''limit'', JInt limit), (''page'', JInt 1)];
          params = add_filter params ''feed_categories'' category;
          params = add_filter params ''keyword'' keyword
      in params)"

definition GloriaClient_get_news ::
  "GloriaClient \<Rightarrow> string option \<Rightarrow> string option \<Rightarrow> int \<Rightarrow> net
     \<Rightarrow> (py_error + json) \<times> GloriaClient \<times> net" where
  "GloriaClient_get_news self category keyword limit n =
     GloriaClient_get self ''/news'' (Some (news_params category keyword limit)) n"

definition GloriaClient_get_news_by_id ::
  "GloriaClient \<Rightarrow> string \<Rightarrow> net \<Rightarrow> (py_error + json) \<times> GloriaClient \<times> net" where
  "GloriaClient_get_news_by_id self news_id n =
     GloriaClient_get self (''/news/'' @ news_id) None n"

definition GloriaClient_get_recap ::
  "GloriaClient \<Rightarrow> string \<Rightarrow> string \<Rightarrow> net \<Rightarrow> (py_error + json) \<times> GloriaClient \<times> net" where
  "GloriaClient_get_recap self category timeframe n =
     GloriaClient_get self ''/recaps''
       (Some [(''feed_category'', JStr category), (''timeframe'', JStr timeframe)]) n"

definition GloriaClient_get_categories ::
  "GloriaClient \<Rightarrow> net \<Rightarrow> (py_error + json) \<times> GloriaClient \<times> net" where
  "GloriaClient_get_categories self n =
     GloriaClient_get self ''/available-feed-categories'' None n"

text \<open>\<^verbatim>\<open>GloriaClient.close\<close>\<close>

definition GloriaClient_close :: "GloriaClient \<Rightarrow> net \<Rightarrow> GloriaClient \<times> net" where
  "GloriaClient_close self n =
     (case gc_http self of
        None \<Rightarrow> (self, n)
      | Some h \<Rightarrow> if \<not> is_closed h
                  then (self\<lparr>gc_http := Some (h\<lparr>is_closed := True\<rparr>)\<rparr>, n)
                  else (self, n))"

subsection \<open>Sequences of client operations\<close>

text \<open>
  A caller of the client issues requests and closes it, in any order. \<open>session_ok\<close> says
  that the session the client holds, if any, is one it made itself: at its base URL, with
  its timeout.
\<close>

datatype client_op = Request string "dict option" | Close

fun client_step :: "client_op \<Rightarrow> GloriaClient \<times> net \<Rightarrow> GloriaClient \<times> net" where
  "client_step (Request path params) (self, n) =
     (case GloriaClient_get self path params n of (r, self', n') \<Rightarrow> (self', n'))"
| "client_step Close (self, n) = GloriaClient_close self n"

definition client_run :: "client_op list \<Rightarrow> GloriaClient \<times> net \<Rightarrow> GloriaClient \<times> net" where
  "client_run ops st = fold client_step ops st"

definition session_ok :: "GloriaClient \<Rightarrow> bool" where
  "session_ok self =
     (case gc_http self of
        None \<Rightarrow> True
      | Some h \<Rightarrow> ac_base_url h = gc_base_url self \<and> ac_timeout h = 30)"

subsection \<open>A sample network\<close>

text \<open>An upstream that gives every request the same reply, and a network on which nothing
  has happened yet.\<close>

definition sample_upstream :: "reply \<Rightarrow> request list \<Rightarrow> request \<Rightarrow> reply" where
  "sample_upstream answer history rq = answer"

definition sample_net :: "reply \<Rightarrow> net" where
  "sample_net answer = \<lparr>upstream = sample_upstream answer, sent = [], sessions_created = 0\<rparr>"

section \<open>server.py: the tools and resources\<close>

text \<open>
  The process: its environment variables, the module-level \<^verbatim>\<open>_client\<close> and the network.
  The one \<^verbatim>\<open>GloriaClient\<close> object is referenced from \<^verbatim>\<open>_client\<close> only, so a method
  call on it stores the object back together with the network it leaves.
\<close>

record process =
  environ :: "string \<Rightarrow> string option"
  g_client :: "GloriaClient option"
  network :: net

type_synonym 'a tool = "process \<Rightarrow> (py_error + 'a) \<times> process"

text \<open>\<^verbatim>\<open>os.environ.get(name, default)\<close>\<close>

definition environ_get :: "process \<Rightarrow> string \<Rightarrow> string \<Rightarrow> string" where
  "environ_get s name dflt = (case environ s name of Some v \<Rightarrow> v | None \<Rightarrow> dflt)"

text \<open>\<^verbatim>\<open>_get_client\<close>\<close>

definition get_client :: "GloriaClient tool" where
  "get_client s =
     (case g_client s of
        Some c \<Rightarrow> (Inr c, s)
      | None \<Rightarrow>
          (let token = environ_get s ''GLORIA_API_TOKEN'' [];
               base_url = environ_get s ''AI_HUB_BASE_URL'' ''https://ai-hub.cryptobriefing.com''
           in if token = []
              then (Inl (RuntimeError ''GLORIA_API_TOKEN environment variable is required''), s)
              else (let c = GloriaClient_init base_url token
                    in (Inr c, s\<lparr>g_client := Some c\<rparr>))))"

text \<open>\<^verbatim>\<open>await _get_client().method(...)\<close>\<close>

definition call_client ::
  "(GloriaClient \<Rightarrow> net \<Rightarrow> (py_error + 'a) \<times> GloriaClient \<times> net) \<Rightarrow> 'a tool" where
  "call_client method s =
     (case get_client s of
        (Inl e, s') \<Rightarrow> (Inl e, s')
      | (Inr c, s') \<Rightarrow>
          (case method c (network s') of
             (r, c', n') \<Rightarrow> (r, s'\<lparr>g_client := Some c', network := n'\<rparr>)))"

text \<open>\<^verbatim>\<open>[truncate_news(item) for item in items]\<close>\<close>

definition truncate_all :: "json \<Rightarrow> py_error + json" where
  "truncate_all items =
     bindE (py_iter items) (\<lambda>xs. bindE (mapE truncate_news xs) (\<lambda>ys. Inr (JList ys)))"

definition get_latest_news :: "string option \<Rightarrow> int \<Rightarrow> json tool" where
  "get_latest_news category limit s =
     (let limit = max 1 (min 10 limit)
      in case call_client (\<lambda>c. GloriaClient_get_news c category None limit) s of
           (Inl e, s') \<Rightarrow> (Inl e, s')
         | (Inr items, s') \<Rightarrow> (truncate_all items, s'))"

definition get_news_recap :: "string \<Rightarrow> string \<Rightarrow> json tool" where
  "get_news_recap category timeframe s =
     (case call_client (\<lambda>c. GloriaClient_get_recap c category timeframe) s of
        (Inl e, s') \<Rightarrow> (Inl e, s')
      | (Inr result, s') \<Rightarrow>
          if result = JNull
          then (Inr (JObj [(''error'',
                  JStr (''No recap found for category '' @ apo @ category @ apo @
                        '' with timeframe '' @ apo @ timeframe @ apo @ ''.''))]), s')
          else (format_recap result, s'))"

definition search_news :: "string \<Rightarrow> int \<Rightarrow> json tool" where
  "search_news query limit s =
     (let limit = max 1 (min 5 limit)
      in case call_client (\<lambda>c. GloriaClient_get_news c None (Some query) limit) s of
           (Inl e, s') \<Rightarrow> (Inl e, s')
         | (Inr items, s') \<Rightarrow> (truncate_all items, s'))"

definition get_categories :: "json tool" where
  "get_categories s = call_client GloriaClient_get_categories s"

definition get_news_item :: "string \<Rightarrow> json tool" where
  "get_news_item ident s =
     (case call_client (\<lambda>c. GloriaClient_get_news_by_id c ident) s of
        (Inl e, s') \<Rightarrow> (Inl e, s')
      | (Inr item, s') \<Rightarrow>
          if item = JNull
          then (Inr (JObj [(''error'',
                  JStr (''News item '' @ apo @ ident @ apo @ '' not found.''))]), s')
          else (truncate_news item, s'))"

definition get_enriched_news :: "json tool" where
  "get_enriched_news s = (Inr enriched_news_payment_info, s)"

definition get_ticker_summary :: "json tool" where
  "get_ticker_summary s = (Inr ticker_summary_payment_info, s)"

subsection \<open>The categories resource\<close>

text \<open>
  An f-string field prints a string as it is; for any other value it prints Python's
  \<^verbatim>\<open>str\<close> of it, which the model takes as the parameter \<open>str_of\<close>.
\<close>

definition fmt :: "(json \<Rightarrow> string) \<Rightarrow> json \<Rightarrow> string" where
  "fmt str_of v = (case v of JStr s \<Rightarrow> s | _ \<Rightarrow> str_of v)"

text \<open>\<^verbatim>\<open>sep.join(lines)\<close>\<close>

fun join :: "string \<Rightarrow> string list \<Rightarrow> string" where
  "join sep [] = []"
| "join sep [l] = l"
| "join sep (l # ls) = l @ sep @ join sep ls"

definition recap_info :: "(json \<Rightarrow> string) \<Rightarrow> json \<Rightarrow> string" where
  "recap_info str_of recap =
     (if py_truthy recap then '' (recaps every '' @ fmt str_of recap @ '')''
      else '' (no recaps)'')"

fun render_lines ::
  "(json \<Rightarrow> string) \<Rightarrow> json list \<Rightarrow> string list \<Rightarrow> py_error + string list" where
  "render_lines str_of [] lines = Inr lines"
| "render_lines str_of (cat # cats) lines =
     bindE (py_get cat ''recap_timeframe'') (\<lambda>recap.
     bindE (py_getitem cat ''code'') (\<lambda>code.
     bindE (py_getitem cat ''name'') (\<lambda>name.
       render_lines str_of cats
         (lines @ [''- '' @ fmt str_of code @ '': '' @ fmt str_of name @
                   recap_info str_of recap]))))"

definition render_categories :: "(json \<Rightarrow> string) \<Rightarrow> json \<Rightarrow> py_error + string" where
  "render_categories str_of cats =
     bindE (py_iter cats) (\<lambda>xs.
     bindE (render_lines str_of xs [''Available Gloria AI news categories:'' @ [CHR 0x0A]])
       (\<lambda>lines. Inr (join [CHR 0x0A] lines)))"

definition fallback :: string where
  "fallback = ''Categories temporarily unavailable. Use the get_categories tool instead.''"

text \<open>The \<^verbatim>\<open>try\<close> block of \<^verbatim>\<open>categories_resource\<close>, then the resource with its handler.\<close>

definition categories_body :: "(json \<Rightarrow> string) \<Rightarrow> string tool" where
  "categories_body str_of s =
     (case call_client GloriaClient_get_categories s of
        (Inl e, s') \<Rightarrow> (Inl e, s')
      | (Inr cats, s') \<Rightarrow> (render_categories str_of cats, s'))"

definition categories_resource :: "(json \<Rightarrow> string) \<Rightarrow> process \<Rightarrow> string \<times> process" where
  "categories_resource str_of s =
     (case categories_body str_of s of
        (Inr text, s') \<Rightarrow> (text, s')
      | (Inl e, s') \<Rightarrow> (fallback, s'))"

subsection \<open>A sample process\<close>

text \<open>A process that has not yet made its client, with the given environment, on the
  sample network.\<close>

definition sample_process :: "(string \<times> string) list \<Rightarrow> reply \<Rightarrow> process" where
  "sample_process env answer =
     \<lparr>environ = map_of env, g_client = None, network = sample_net answer\<rparr>"

text \<open>A stand-in for Python's \<^verbatim>\<open>str\<close> on values that are not strings.\<close>

definition sample_str_of :: "json \<Rightarrow> string" where
  "sample_str_of v = ''<value>''"

section \<open>Properties of the dict operations\<close>

lemma keys_dict_set:
  "keys (dict_set d k v) = (if k \<in> set (keys d) then keys d else keys d @ [k])"
  by (induction d) (force simp: keys_def)+

lemma dict_set_fresh: "k \<notin> set (keys d) \<Longrightarrow> dict_set d k v = d @ [(k, v)]"
  by (induction d) (auto simp: keys_def)

lemma map_of_dict_set: "map_of (dict_set d k v) = (map_of d)(k \<mapsto> v)"
  by (induction d) (auto simp: fun_eq_iff)

lemma map_of_keys: "k \<in> set (keys d) \<longleftrightarrow> map_of d k \<noteq> None"
  by (simp add: keys_def map_of_eq_None_iff)

lemma comprehend_obj:
  "distinct ks \<Longrightarrow> set ks \<inter> set (keys acc) = {} \<Longrightarrow>
   comprehend (JObj item) ks acc =
     Inr (acc @ List.map_filter (\<lambda>k. map_option (Pair k) (map_of item k)) ks)"
proof (induction ks arbitrary: acc)
  case Nil
  then show ?case by simp
next
  case (Cons k ks)
  show ?case
  proof (cases "map_of item k")
    case None
    then have "k \<notin> set (keys item)" by (simp add: map_of_keys)
    with Cons None show ?thesis by (simp add: bindE_def)
  next
    case (Some v)
    then have "k \<in> set (keys item)" by (simp add: map_of_keys)
    moreover have "k \<notin> set (keys acc)" using Cons.prems by auto
    moreover have "set ks \<inter> set (keys (acc @ [(k, v)])) = {}"
      using Cons.prems by (auto simp: keys_def)
    ultimately show ?thesis using Cons Some
      by (simp add: bindE_def dict_set_fresh)
  qed
qed

lemma keys_map_filter:
  "keys (List.map_filter (\<lambda>k. map_option (Pair k) (map_of item k)) ks) =
     filter (\<lambda>k. k \<in> set (keys item)) ks"
  by (induction ks) (simp_all add: keys_def map_of_eq_None_iff[symmetric] split: option.splits)

lemma set_map_filter:
  "set (List.map_filter (\<lambda>k. map_option (Pair k) (map_of item k)) ks) =
     {(k, v). k \<in> set ks \<and> map_of item k = Some v}"
  by (induction ks) (auto split: option.splits)

lemma distinct_FREE: "distinct FREE_NEWS_FIELDS"
  by (simp add: FREE_NEWS_FIELDS_def)

lemma truncate_news_obj:
  "truncate_news (JObj item) =
     Inr (JObj (List.map_filter (\<lambda>k. map_option (Pair k) (map_of item k)) FREE_NEWS_FIELDS))"
  using comprehend_obj[OF distinct_FREE, of "[]" item]
  by (simp add: truncate_news_def bindE_def keys_def)

lemma map_of_distinct_keys:
  "distinct (keys d) \<Longrightarrow> (k, v) \<in> set d \<Longrightarrow> map_of d k = Some v"
  by (simp add: keys_def)

section \<open>The shapers\<close>

text \<open>
  C1. For a news item that is a dict, \<open>truncate_news\<close> returns a dict whose keys are exactly
  the keys of the item that are in the allow-list of ten fields, without duplicates, and each
  of these keys has the value it has in the item. Keys the item lacks are left out: nothing
  is defaulted and nothing is raised.
\<close>

theorem truncate_news_projection:
  "\<exists>out. truncate_news (JObj item) = Inr (JObj out)
     \<and> set (keys out) = set (keys item) \<inter> set FREE_NEWS_FIELDS
     \<and> distinct (keys out)
     \<and> (\<forall>k \<in> set (keys out). map_of out k = map_of item k)
     \<and> length FREE_NEWS_FIELDS = 10 \<and> distinct FREE_NEWS_FIELDS"
proof -
  let ?out = "List.map_filter (\<lambda>k. map_option (Pair k) (map_of item k)) FREE_NEWS_FIELDS"
  have k: "keys ?out = filter (\<lambda>k. k \<in> set (keys item)) FREE_NEWS_FIELDS"
    by (rule keys_map_filter)
  have d: "distinct (keys ?out)" unfolding k using distinct_FREE by simp
  have v: "map_of ?out k = map_of item k" if "k \<in> set (keys ?out)" for k
  proof -
    from that obtain v where "(k, v) \<in> set ?out" by (auto simp: keys_def)
    then have "map_of item k = Some v" "map_of ?out k = Some v"
      using d by (auto simp: set_map_filter map_of_distinct_keys)
    then show ?thesis by simp
  qed
  have s: "set (keys ?out) = set (keys item) \<inter> set FREE_NEWS_FIELDS"
    unfolding k by auto
  have l: "length FREE_NEWS_FIELDS = 10" by (simp add: FREE_NEWS_FIELDS_def)
  from truncate_news_obj s d v l distinct_FREE show ?thesis by blast
qed

theorem truncate_news_projection_witness:
  "\<exists>out. truncate_news (JObj [(''signal'', JStr ''x''), (''long_context'', JStr ''paid''),
                                (''id'', JInt 1)]) = Inr (JObj out)
     \<and> set (keys out) = {''id'', ''signal''}
     \<and> map_of out ''signal'' = Some (JStr ''x'')
     \<and> map_of out ''id'' = Some (JInt 1)
     \<and> ''long_context'' \<notin> set (keys out)"
proof -
  let ?item = "[(''signal'', JStr ''x''), (''long_context'', JStr ''paid''), (''id'', JInt 1)]"
  from truncate_news_projection [of ?item] obtain out where
    r: "truncate_news (JObj ?item) = Inr (JObj out)" and
    s: "set (keys out) = set (keys ?item) \<inter> set FREE_NEWS_FIELDS" and
    v: "\<forall>k \<in> set (keys out). map_of out k = map_of ?item k"
    by blast
  have s': "set (keys out) = {''id'', ''signal''}"
    unfolding s by (simp add: keys_def FREE_NEWS_FIELDS_def insert_commute)
  from v s' have "map_of out ''signal'' = Some (JStr ''x'')" "map_of out ''id'' = Some (JInt 1)"
    by simp_all
  moreover from s' have "''long_context'' \<notin> set (keys out)" by simp
  ultimately show ?thesis using r s' by blast
qed

text \<open>
  C2. The free-tier view is a projection: its keys are the allow-list restricted to the keys
  of the item, in the order of the allow-list, and every entry of the output carries the
  value the item has under the same key. No field is renamed and no value is computed.
\<close>

theorem truncate_news_allow_list_order:
  "\<exists>out. truncate_news (JObj item) = Inr (JObj out)
     \<and> keys out = filter (\<lambda>k. k \<in> set (keys item)) FREE_NEWS_FIELDS
     \<and> (\<forall>(k, v) \<in> set out. map_of item k = Some v)"
  using truncate_news_obj[of item] keys_map_filter[of item FREE_NEWS_FIELDS]
  by (auto simp: set_map_filter)

theorem truncate_news_allow_list_order_witness:
  "\<exists>out. truncate_news (JObj [(''signal'', JStr ''x''), (''id'', JInt 1)]) = Inr (JObj out)
     \<and> keys out = [''id'', ''signal'']
     \<and> map_of out ''id'' = Some (JInt 1)
     \<and> map_of out ''signal'' = Some (JStr ''x'')"
proof -
  let ?item = "[(''signal'', JStr ''x''), (''id'', JInt 1)]"
  from truncate_news_allow_list_order [of ?item] obtain out where
    r: "truncate_news (JObj ?item) = Inr (JObj out)" and
    k: "keys out = filter (\<lambda>k. k \<in> set (keys ?item)) FREE_NEWS_FIELDS" and
    v: "\<forall>(k, v) \<in> set out. map_of ?item k = Some v"
    by blast
  have k': "keys out = [''id'', ''signal'']"
    unfolding k by (simp add: keys_def FREE_NEWS_FIELDS_def)
  then obtain a b where o: "out = [(''id'', a), (''signal'', b)]"
    by (auto simp: keys_def map_eq_Cons_conv)
  with v have "a = JInt 1" "b = JStr ''x''" by simp_all
  with o r k' show ?thesis by simp
qed

text \<open>
  The order of the output is the order of the allow-list, not the order of the input: an item
  that lists \<open>signal\<close> before \<open>id\<close> comes back with \<open>id\<close> first.
\<close>

theorem truncate_news_reorders:
  "truncate_news (JObj [(''signal'', JStr ''x''), (''id'', JInt 1)])
     = Inr (JObj [(''id'', JInt 1), (''signal'', JStr ''x'')])
   \<and> keys [(''id'', JInt 1), (''signal'', JStr ''x'')]
     \<noteq> keys [(''signal'', JStr ''x''), (''id'', JInt 1)]"
  by (simp add: truncate_news_def FREE_NEWS_FIELDS_def bindE_def keys_def)

text \<open>
  C3. For a recap record that is a dict, \<open>format_recap\<close> returns a dict with exactly the
  four keys \<open>feed_category\<close>, \<open>timeframe\<close>, \<open>recap\<close>, \<open>created_at\<close>, whatever the keys of
  the input; each is the input's value, or null when the input lacks the key, and nothing is
  raised.
\<close>

theorem format_recap_four_keys:
  "\<exists>out. format_recap (JObj item) = Inr (JObj out)
     \<and> keys out = [''feed_category'', ''timeframe'', ''recap'', ''created_at'']
     \<and> (\<forall>k \<in> set (keys out).
           map_of out k = Some (case map_of item k of Some v \<Rightarrow> v | None \<Rightarrow> JNull))"
  by (simp add: format_recap_def bindE_def keys_def)

theorem format_recap_four_keys_witness:
  "\<exists>out. format_recap (JObj [(''recap'', JStr ''calm day''), (''extra'', JInt 3)]) = Inr (JObj out)
     \<and> keys out = [''feed_category'', ''timeframe'', ''recap'', ''created_at'']
     \<and> map_of out ''recap'' = Some (JStr ''calm day'')
     \<and> map_of out ''timeframe'' = Some JNull
     \<and> map_of out ''extra'' = None"
  using format_recap_four_keys [of "[(''recap'', JStr ''calm day''), (''extra'', JInt 3)]"]
  by (auto simp: keys_def)

section \<open>The paid tools\<close>

text \<open>
  C6. \<open>get_enriched_news\<close> and \<open>get_ticker_summary\<close> take no argument, leave the process
  as it is (no request is sent, no session is opened, no client is asked for) and return the
  same fixed structure from every state, so also on every repeated call.
\<close>

theorem paid_tools_static:
  "get_enriched_news s = (Inr enriched_news_payment_info, s)
   \<and> get_ticker_summary s = (Inr ticker_summary_payment_info, s)
   \<and> fst (get_enriched_news s) = fst (get_enriched_news s')
   \<and> fst (get_ticker_summary s) = fst (get_ticker_summary s')
   \<and> fst (get_enriched_news (snd (get_enriched_news s))) = fst (get_enriched_news s)
   \<and> fst (get_ticker_summary (snd (get_ticker_summary s))) = fst (get_ticker_summary s)
   \<and> sent (network (snd (get_enriched_news s))) = sent (network s)
   \<and> sent (network (snd (get_ticker_summary s))) = sent (network s)
   \<and> sessions_created (network (snd (get_enriched_news s))) = sessions_created (network s)
   \<and> sessions_created (network (snd (get_ticker_summary s))) = sessions_created (network s)"
  by (simp add: get_enriched_news_def get_ticker_summary_def)

section \<open>The client and the tools\<close>

lemma GloriaClient_client_open:
  "GloriaClient_client self n = (h, self', n') \<Longrightarrow>
     \<not> is_closed h \<and> gc_http self' = Some h \<and> sent n' = sent n \<and> upstream n' = upstream n
     \<and> gc_token self' = gc_token self \<and> gc_base_url self' = gc_base_url self"
  by (auto simp: GloriaClient_client_def new_session_def Let_def split: option.splits if_splits)

lemma GloriaClient_client_fresh:
  "gc_http self = None \<or> (\<exists>h. gc_http self = Some h \<and> is_closed h) \<Longrightarrow>
   GloriaClient_client self n =
     (\<lparr>sid = sessions_created n, ac_base_url = gc_base_url self, ac_timeout = 30, is_closed = False\<rparr>,
      self\<lparr>gc_http := Some \<lparr>sid = sessions_created n, ac_base_url = gc_base_url self,
                               ac_timeout = 30, is_closed = False\<rparr>\<rparr>,
      n\<lparr>sessions_created := Suc (sessions_created n)\<rparr>)"
  by (auto simp: GloriaClient_client_def new_session_def Let_def split: option.splits)

lemma GloriaClient_get_sends:
  assumes "GloriaClient_get self path params n = (r, self', n')"
  shows "\<exists>h. gc_http self' = Some h \<and> \<not> is_closed h
           \<and> sent n' = sent n @ [\<lparr>rq_session = sid h, rq_base_url = ac_base_url h, rq_path = path,
                  rq_params = dict_set (case params of None \<Rightarrow> [] | Some p \<Rightarrow> p) ''token'' (JStr (gc_token self))\<rparr>]
           \<and> r = decode (upstream n (sent n)
                  \<lparr>rq_session = sid h, rq_base_url = ac_base_url h, rq_path = path,
                  rq_params = dict_set (case params of None \<Rightarrow> [] | Some p \<Rightarrow> p) ''token'' (JStr (gc_token self))\<rparr>)
           \<and> upstream n' = upstream n
           \<and> gc_token self' = gc_token self \<and> gc_base_url self' = gc_base_url self"
proof -
  obtain h s1 n1 where c: "GloriaClient_client self n = (h, s1, n1)"
    by (metis prod_cases3)
  note o = GloriaClient_client_open[OF c]
  have p: "(case params of None \<Rightarrow> [] | Some p \<Rightarrow> if p = [] then [] else p)
           = (case params of None \<Rightarrow> [] | Some p \<Rightarrow> p)"
    by (simp split: option.splits)
  from assms c o show ?thesis
    by (auto simp: GloriaClient_get_def AsyncClient_get_def Let_def p)
qed


lemma news_params_eq:
  "news_params category keyword limit =
     [(''limit'', JInt limit), (''page'', JInt 1)]
     @ (case category of None \<Rightarrow> [] | Some c \<Rightarrow> if c = [] then [] else [(''feed_categories'', JStr c)])
     @ (case keyword of None \<Rightarrow> [] | Some k \<Rightarrow> if k = [] then [] else [(''keyword'', JStr k)])"
  by (simp add: news_params_def split: option.splits)

lemma news_params_no_token: "''token'' \<notin> set (keys (news_params category keyword limit))"
  by (cases category; cases keyword) (simp_all add: news_params_eq keys_def)

text \<open>
  C7. Every request of the client goes through \<open>GloriaClient_get\<close>, which sends exactly one
  request whose parameter \<open>token\<close> is the client's token. For \<open>get_news\<close> the parameters
  are \<open>limit\<close> and \<open>page = 1\<close>, then \<open>feed_categories\<close> when the category is a string that is
  not empty, then \<open>keyword\<close> when the keyword is a string that is not empty, then the token;
  the strings are passed as they are, and the outcome is what the upstream answers: nothing
  is validated by the client.
\<close>

theorem get_news_request:
  "(\<exists>rq. sent (snd (snd (GloriaClient_get self path params n))) = sent n @ [rq]
        \<and> rq_path rq = path
        \<and> map_of (rq_params rq) ''token'' = Some (JStr (gc_token self)))
   \<and> (\<exists>rq. sent (snd (snd (GloriaClient_get_news self category keyword limit n))) = sent n @ [rq]
        \<and> rq_path rq = ''/news''
        \<and> rq_params rq =
            [(''limit'', JInt limit), (''page'', JInt 1)]
            @ (case category of None \<Rightarrow> []
               | Some c \<Rightarrow> if c = [] then [] else [(''feed_categories'', JStr c)])
            @ (case keyword of None \<Rightarrow> []
               | Some k \<Rightarrow> if k = [] then [] else [(''keyword'', JStr k)])
            @ [(''token'', JStr (gc_token self))]
        \<and> fst (GloriaClient_get_news self category keyword limit n)
            = decode (upstream n (sent n) rq))"
proof
  obtain r self' n' where g: "GloriaClient_get self path params n = (r, self', n')"
    by (metis prod_cases3)
  from GloriaClient_get_sends[OF g] g
  show "\<exists>rq. sent (snd (snd (GloriaClient_get self path params n))) = sent n @ [rq]
        \<and> rq_path rq = path
        \<and> map_of (rq_params rq) ''token'' = Some (JStr (gc_token self))"
    by (auto simp: map_of_dict_set)
next
  let ?p = "news_params category keyword limit"
  obtain r self' n' where g: "GloriaClient_get self ''/news'' (Some ?p) n = (r, self', n')"
    by (metis prod_cases3)
  have "dict_set ?p ''token'' (JStr (gc_token self)) = ?p @ [(''token'', JStr (gc_token self))]"
    by (rule dict_set_fresh[OF news_params_no_token])
  with GloriaClient_get_sends[OF g] g
  show "\<exists>rq. sent (snd (snd (GloriaClient_get_news self category keyword limit n))) = sent n @ [rq]
        \<and> rq_path rq = ''/news''
        \<and> rq_params rq =
            [(''limit'', JInt limit), (''page'', JInt 1)]
            @ (case category of None \<Rightarrow> []
               | Some c \<Rightarrow> if c = [] then [] else [(''feed_categories'', JStr c)])
            @ (case keyword of None \<Rightarrow> []
               | Some k \<Rightarrow> if k = [] then [] else [(''keyword'', JStr k)])
            @ [(''token'', JStr (gc_token self))]
        \<and> fst (GloriaClient_get_news self category keyword limit n)
            = decode (upstream n (sent n) rq)"
    by (auto simp: GloriaClient_get_news_def news_params_eq)
qed

text \<open>
  A filter that is given as the empty string is not sent: with both filters given so, the
  request carries \<open>limit\<close>, \<open>page\<close> and \<open>token\<close> only.
\<close>

theorem get_news_drops_empty_filter:
  "sent (snd (snd (GloriaClient_get_news (GloriaClient_init ''https://h'' ''tok'')
                     (Some []) (Some []) 5 (sample_net (Reply 200 (Some (JList [])))))))
   = [\<lparr>rq_session = 0, rq_base_url = ''https://h'', rq_path = ''/news'',
       rq_params = [(''limit'', JInt 5), (''page'', JInt 1), (''token'', JStr ''tok'')]\<rparr>]"
  by (simp add: GloriaClient_get_news_def GloriaClient_get_def GloriaClient_client_def
        GloriaClient_init_def new_session_def AsyncClient_get_def news_params_def
        sample_net_def rstrip_slash_def Let_def)

lemma GloriaClient_close_closed:
  "case gc_http (fst (GloriaClient_close self n)) of None \<Rightarrow> gc_http self = None | Some h \<Rightarrow> is_closed h"
  by (simp add: GloriaClient_close_def split: option.splits)

lemma GloriaClient_close_frame:
  "snd (GloriaClient_close self n) = n"
  "gc_base_url (fst (GloriaClient_close self n)) = gc_base_url self"
  "gc_token (fst (GloriaClient_close self n)) = gc_token self"
  by (simp_all add: GloriaClient_close_def split: option.splits)

lemma session_ok_close: "session_ok self \<Longrightarrow> session_ok (fst (GloriaClient_close self n))"
  by (auto simp: session_ok_def GloriaClient_close_def split: option.splits)

lemma session_ok_client:
  "session_ok self \<Longrightarrow> session_ok (fst (snd (GloriaClient_client self n)))"
  by (auto simp: session_ok_def GloriaClient_client_def new_session_def Let_def split: option.splits)

lemma GloriaClient_get_self:
  "fst (snd (GloriaClient_get self path params n)) = fst (snd (GloriaClient_client self n))"
  by (simp add: GloriaClient_get_def Let_def split: prod.splits)

lemma session_ok_get:
  "session_ok self \<Longrightarrow> session_ok (fst (snd (GloriaClient_get self path params n)))"
  by (simp add: GloriaClient_get_self session_ok_client)

lemma client_run_sent:
  "length (sent (snd (client_run ops (self, n))))
     = length (sent n) + length (filter (\<lambda>op. op \<noteq> Close) ops)"
proof (induction ops arbitrary: self n)
  case Nil
  show ?case by (simp add: client_run_def)
next
  case (Cons op ops)
  show ?case
  proof (cases op)
    case (Request path params)
    obtain r self' n' where g: "GloriaClient_get self path params n = (r, self', n')"
      by (metis prod_cases3)
    from GloriaClient_get_sends[OF g] have "length (sent n') = Suc (length (sent n))" by auto
    with Cons.IH[of self' n'] g Request show ?thesis by (simp add: client_run_def)
  next
    case Close
    obtain self' where c: "GloriaClient_close self n = (self', n)"
      using GloriaClient_close_frame(1)[of self n] by (cases "GloriaClient_close self n") simp
    with Cons.IH[of self' n] Close show ?thesis by (simp add: client_run_def)
  qed
qed

lemma client_run_session_ok:
  "session_ok self \<Longrightarrow> session_ok (fst (client_run ops (self, n)))"
proof (induction ops arbitrary: self n)
  case Nil
  then show ?case by (simp add: client_run_def)
next
  case (Cons op ops)
  show ?case
  proof (cases op)
    case (Request path params)
    obtain r self' n' where g: "GloriaClient_get self path params n = (r, self', n')"
      by (metis prod_cases3)
    with session_ok_get[OF Cons.prems, of path params n] have "session_ok self'" by simp
    from Cons.IH[OF this, of n'] g Request show ?thesis by (simp add: client_run_def)
  next
    case Close
    obtain self' n' where c: "GloriaClient_close self n = (self', n')"
      by (cases "GloriaClient_close self n")
    with session_ok_close[OF Cons.prems, of n] have "session_ok self'" by simp
    from Cons.IH[OF this, of n'] c Close show ?thesis by (simp add: client_run_def)
  qed
qed

lemma get_after_close:
  "case GloriaClient_close self n of (self1, n1) \<Rightarrow>
     (case GloriaClient_get self1 path params n1 of (r, self2, n2) \<Rightarrow>
        gc_http self2 = Some \<lparr>sid = sessions_created n, ac_base_url = gc_base_url self,
                               ac_timeout = 30, is_closed = False\<rparr>
        \<and> sessions_created n2 = Suc (sessions_created n)
        \<and> (\<exists>rq. sent n2 = sent n @ [rq] \<and> rq_session rq = sessions_created n
                 \<and> rq_base_url rq = gc_base_url self \<and> rq_path rq = path
                 \<and> r = decode (upstream n (sent n) rq)))"
proof -
  obtain self1 where c: "GloriaClient_close self n = (self1, n)"
    using GloriaClient_close_frame(1)[of self n] by (cases "GloriaClient_close self n") simp
  have "gc_http self1 = None \<or> (\<exists>h. gc_http self1 = Some h \<and> is_closed h)"
    using GloriaClient_close_closed[of self n] c by (auto split: option.splits)
  from GloriaClient_client_fresh[OF this, of n] GloriaClient_close_frame(2)[of self n] c
  show ?thesis
    by (simp add: GloriaClient_get_def AsyncClient_get_def Let_def)
qed

lemma GloriaClient_close_idem:
  "GloriaClient_close (fst (GloriaClient_close self n)) (snd (GloriaClient_close self n))
     = GloriaClient_close self n"
  by (simp add: GloriaClient_close_def split: option.splits)

lemma GloriaClient_close_open:
  "gc_http self = Some h \<Longrightarrow> \<not> is_closed h \<Longrightarrow>
   GloriaClient_close self n = (self\<lparr>gc_http := Some (h\<lparr>is_closed := True\<rparr>)\<rparr>, n)"
  by (simp add: GloriaClient_close_def)

lemma GloriaClient_client_reuse:
  "gc_http self = Some h \<Longrightarrow> \<not> is_closed h \<Longrightarrow> GloriaClient_client self n = (h, self, n)"
  by (simp add: GloriaClient_client_def)

lemma GloriaClient_get_reuse:
  "gc_http self = Some h \<Longrightarrow> \<not> is_closed h \<Longrightarrow>
   GloriaClient_get self path params n =
     (decode (upstream n (sent n)
        \<lparr>rq_session = sid h, rq_base_url = ac_base_url h, rq_path = path,
         rq_params = dict_set (case params of None \<Rightarrow> [] | Some p \<Rightarrow> p) ''token''
                       (JStr (gc_token self))\<rparr>),
      self,
      n\<lparr>sent := sent n @
        [\<lparr>rq_session = sid h, rq_base_url = ac_base_url h, rq_path = path,
          rq_params = dict_set (case params of None \<Rightarrow> [] | Some p \<Rightarrow> p) ''token''
                        (JStr (gc_token self))\<rparr>]\<rparr>)"
proof -
  have p: "(case params of None \<Rightarrow> [] | Some p \<Rightarrow> if p = [] then [] else p)
           = (case params of None \<Rightarrow> [] | Some p \<Rightarrow> p)"
    by (simp split: option.splits)
  assume "gc_http self = Some h" "\<not> is_closed h"
  then show ?thesis
    by (simp add: GloriaClient_get_def GloriaClient_client_reuse AsyncClient_get_def Let_def p)
qed

text \<open>
  C9. Closing is idempotent and leaves the network alone; with no session, or a closed one,
  it changes nothing, and an open session it marks closed. \<open>GloriaClient_client\<close> tests the
  session: an open one is returned as it is, and a request then goes out on it, with no new
  session made; an absent or closed one is replaced by a new one, open, at the client's base
  URL with the timeout 30. A request after a close is sent, on a session made for it, and
  returns what the upstream answers. Over any sequence of requests and closes every request
  is sent, and the session held stays one of the client's own making.
\<close>

theorem session_lifecycle:
  "GloriaClient_close (fst (GloriaClient_close self n)) (snd (GloriaClient_close self n))
     = GloriaClient_close self n
   \<and> snd (GloriaClient_close self n) = n
   \<and> (gc_http self = None \<or> (\<exists>h. gc_http self = Some h \<and> is_closed h)
        \<longrightarrow> GloriaClient_close self n = (self, n))
   \<and> (gc_http self = Some h \<and> \<not> is_closed h
        \<longrightarrow> GloriaClient_close self n = (self\<lparr>gc_http := Some (h\<lparr>is_closed := True\<rparr>)\<rparr>, n))
   \<and> (gc_http self = None \<or> (\<exists>h. gc_http self = Some h \<and> is_closed h)
        \<longrightarrow> GloriaClient_client self n =
             (\<lparr>sid = sessions_created n, ac_base_url = gc_base_url self,
               ac_timeout = 30, is_closed = False\<rparr>,
              self\<lparr>gc_http := Some \<lparr>sid = sessions_created n, ac_base_url = gc_base_url self,
                                      ac_timeout = 30, is_closed = False\<rparr>\<rparr>,
              n\<lparr>sessions_created := Suc (sessions_created n)\<rparr>))
   \<and> (gc_http self = Some h \<and> \<not> is_closed h
        \<longrightarrow> GloriaClient_client self n = (h, self, n))
   \<and> (gc_http self = Some h \<and> \<not> is_closed h
        \<longrightarrow> GloriaClient_get self path params n =
             (decode (upstream n (sent n)
                \<lparr>rq_session = sid h, rq_base_url = ac_base_url h, rq_path = path,
                 rq_params = dict_set (case params of None \<Rightarrow> [] | Some p \<Rightarrow> p) ''token''
                               (JStr (gc_token self))\<rparr>),
              self,
              n\<lparr>sent := sent n @
                [\<lparr>rq_session = sid h, rq_base_url = ac_base_url h, rq_path = path,
                  rq_params = dict_set (case params of None \<Rightarrow> [] | Some p \<Rightarrow> p) ''token''
                                (JStr (gc_token self))\<rparr>]\<rparr>))
   \<and> (case GloriaClient_close self n of (self1, n1) \<Rightarrow>
        (case GloriaClient_get self1 path params n1 of (r, self2, n2) \<Rightarrow>
           gc_http self2 = Some \<lparr>sid = sessions_created n, ac_base_url = gc_base_url self,
                                  ac_timeout = 30, is_closed = False\<rparr>
           \<and> sessions_created n2 = Suc (sessions_created n)
           \<and> (\<exists>rq. sent n2 = sent n @ [rq] \<and> rq_session rq = sessions_created n
                    \<and> rq_base_url rq = gc_base_url self \<and> rq_path rq = path
                    \<and> r = decode (upstream n (sent n) rq))))
   \<and> length (sent (snd (client_run ops (self, n))))
       = length (sent n) + length (filter (\<lambda>op. op \<noteq> Close) ops)
   \<and> (session_ok self \<longrightarrow> session_ok (fst (client_run ops (self, n))))
   \<and> session_ok (GloriaClient_init base_url token)"
proof -
  have a: "gc_http self = None \<or> (\<exists>h. gc_http self = Some h \<and> is_closed h)
        \<longrightarrow> GloriaClient_close self n = (self, n)"
    by (auto simp: GloriaClient_close_def)
  have b: "session_ok (GloriaClient_init base_url token)"
    by (simp add: session_ok_def GloriaClient_init_def)
  have c: "gc_http self = None \<or> (\<exists>h. gc_http self = Some h \<and> is_closed h)
        \<longrightarrow> GloriaClient_client self n =
             (\<lparr>sid = sessions_created n, ac_base_url = gc_base_url self,
               ac_timeout = 30, is_closed = False\<rparr>,
              self\<lparr>gc_http := Some \<lparr>sid = sessions_created n, ac_base_url = gc_base_url self,
                                      ac_timeout = 30, is_closed = False\<rparr>\<rparr>,
              n\<lparr>sessions_created := Suc (sessions_created n)\<rparr>)"
    using GloriaClient_client_fresh by blast
  have d: "session_ok self \<longrightarrow> session_ok (fst (client_run ops (self, n)))"
    using client_run_session_ok by blast
  have e: "gc_http self = Some h \<and> \<not> is_closed h
        \<longrightarrow> GloriaClient_close self n = (self\<lparr>gc_http := Some (h\<lparr>is_closed := True\<rparr>)\<rparr>, n)"
    using GloriaClient_close_open by blast
  have f: "gc_http self = Some h \<and> \<not> is_closed h
        \<longrightarrow> GloriaClient_client self n = (h, self, n)"
    using GloriaClient_client_reuse by blast
  have g: "gc_http self = Some h \<and> \<not> is_closed h
        \<longrightarrow> GloriaClient_get self path params n =
             (decode (upstream n (sent n)
                \<lparr>rq_session = sid h, rq_base_url = ac_base_url h, rq_path = path,
                 rq_params = dict_set (case params of None \<Rightarrow> [] | Some p \<Rightarrow> p) ''token''
                               (JStr (gc_token self))\<rparr>),
              self,
              n\<lparr>sent := sent n @
                [\<lparr>rq_session = sid h, rq_base_url = ac_base_url h, rq_path = path,
                  rq_params = dict_set (case params of None \<Rightarrow> [] | Some p \<Rightarrow> p) ''token''
                                (JStr (gc_token self))\<rparr>]\<rparr>)"
    using GloriaClient_get_reuse by blast
  show ?thesis
    using GloriaClient_close_idem GloriaClient_close_frame(1) a e c f g get_after_close
      client_run_sent d b
    by (intro conjI) assumption+
qed

theorem session_lifecycle_witness:
  "GloriaClient_close (GloriaClient_init ''https://h/'' ''tok'') (sample_net (Reply 200 (Some JNull)))
     = (GloriaClient_init ''https://h/'' ''tok'', sample_net (Reply 200 (Some JNull)))
   \<and> fst (GloriaClient_client (GloriaClient_init ''https://h/'' ''tok'')
            (sample_net (Reply 200 (Some JNull))))
     = \<lparr>sid = 0, ac_base_url = ''https://h'', ac_timeout = 30, is_closed = False\<rparr>
   \<and> GloriaClient_close
         \<lparr>gc_base_url = ''https://h'', gc_token = ''tok'',
          gc_http = Some \<lparr>sid = 0, ac_base_url = ''https://h'', ac_timeout = 30,
                           is_closed = False\<rparr>\<rparr>
         (sample_net (Reply 200 (Some JNull)))
     = (\<lparr>gc_base_url = ''https://h'', gc_token = ''tok'',
         gc_http = Some \<lparr>sid = 0, ac_base_url = ''https://h'', ac_timeout = 30,
                          is_closed = True\<rparr>\<rparr>,
        sample_net (Reply 200 (Some JNull)))
   \<and> GloriaClient_client
         \<lparr>gc_base_url = ''https://h'', gc_token = ''tok'',
          gc_http = Some \<lparr>sid = 0, ac_base_url = ''https://h'', ac_timeout = 30,
                           is_closed = False\<rparr>\<rparr>
         (sample_net (Reply 200 (Some JNull)))
     = (\<lparr>sid = 0, ac_base_url = ''https://h'', ac_timeout = 30, is_closed = False\<rparr>,
        \<lparr>gc_base_url = ''https://h'', gc_token = ''tok'',
         gc_http = Some \<lparr>sid = 0, ac_base_url = ''https://h'', ac_timeout = 30,
                          is_closed = False\<rparr>\<rparr>,
        sample_net (Reply 200 (Some JNull)))
   \<and> session_ok (fst (client_run [Request ''/news'' None, Close, Close, Request ''/recaps'' None]
                        (GloriaClient_init ''https://h/'' ''tok'',
                         sample_net (Reply 200 (Some JNull)))))
   \<and> length (sent (snd (client_run [Request ''/news'' None, Close, Close, Request ''/recaps'' None]
                        (GloriaClient_init ''https://h/'' ''tok'',
                         sample_net (Reply 200 (Some JNull)))))) = 2
   \<and> map rq_session
         (sent (snd (client_run [Request ''/news'' None, Request ''/recaps'' None, Close, Close,
                                 Request ''/news'' None]
                        (GloriaClient_init ''https://h/'' ''tok'',
                         sample_net (Reply 200 (Some JNull)))))) = [0, 0, 1]"
proof -
  let ?c = "GloriaClient_init ''https://h/'' ''tok''"
  let ?n = "sample_net (Reply 200 (Some JNull))"
  let ?h = "\<lparr>sid = 0, ac_base_url = ''https://h'', ac_timeout = 30, is_closed = False\<rparr>"
  let ?o = "\<lparr>gc_base_url = ''https://h'', gc_token = ''tok'', gc_http = Some ?h\<rparr>"
  have none: "gc_http ?c = None \<or> (\<exists>h. gc_http ?c = Some h \<and> is_closed h)"
    by (simp add: GloriaClient_init_def)
  have "open": "gc_http ?o = Some ?h \<and> \<not> is_closed ?h"
    by simp
  have ok: "session_ok ?c"
    by (simp add: session_ok_def GloriaClient_init_def)
  have u: "gc_base_url ?c = ''https://h''"
    by (simp add: GloriaClient_init_def rstrip_slash_def)
  have z: "sessions_created ?n = 0" "sent ?n = []"
    by (simp_all add: sample_net_def)
  have t: "map rq_session
         (sent (snd (client_run [Request ''/news'' None, Request ''/recaps'' None, Close, Close,
                                 Request ''/news'' None] (?c, ?n)))) = [0, 0, 1]"
    by (simp add: client_run_def GloriaClient_get_def GloriaClient_client_def
          GloriaClient_close_def GloriaClient_init_def new_session_def AsyncClient_get_def
          sample_net_def Let_def)
  note a = session_lifecycle
         [where self = ?c and n = ?n and path = "''/news''" and params = None and h = ?h
            and ops = "[Request ''/news'' None, Close, Close, Request ''/recaps'' None]"]
  note b = session_lifecycle
         [where self = ?o and n = ?n and path = "''/news''" and params = None and h = ?h
            and ops = "[]"]
  from a none ok u z have 1:
    "GloriaClient_close ?c ?n = (?c, ?n)"
    "fst (GloriaClient_client ?c ?n) = ?h"
    "session_ok (fst (client_run [Request ''/news'' None, Close, Close, Request ''/recaps'' None]
                        (?c, ?n)))"
    "length (sent (snd (client_run [Request ''/news'' None, Close, Close, Request ''/recaps'' None]
                        (?c, ?n)))) = 2"
    by simp_all
  from b "open" have 2:
    "GloriaClient_close ?o ?n = (?o\<lparr>gc_http := Some (?h\<lparr>is_closed := True\<rparr>)\<rparr>, ?n)"
    "GloriaClient_client ?o ?n = (?h, ?o, ?n)"
    by blast+
  from 1 2 t show ?thesis by simp
qed

lemma get_client_frame:
  "network (snd (get_client s)) = network s"
  "environ (snd (get_client s)) = environ s"
  by (simp_all add: get_client_def Let_def split: option.splits)

lemma get_client_missing_token:
  "g_client s = None \<Longrightarrow> environ s ''GLORIA_API_TOKEN'' = None \<Longrightarrow>
   get_client s = (Inl (RuntimeError ''GLORIA_API_TOKEN environment variable is required''), s)"
  by (simp add: get_client_def environ_get_def)

lemma call_client_missing_token:
  "g_client s = None \<Longrightarrow> environ s ''GLORIA_API_TOKEN'' = None \<Longrightarrow>
   call_client method s = (Inl (RuntimeError ''GLORIA_API_TOKEN environment variable is required''), s)"
  by (simp add: call_client_def get_client_missing_token)

lemma call_client_get:
  assumes "get_client s = (Inr c, s1)"
  shows "\<exists>rq. sent (network (snd (call_client (\<lambda>c. GloriaClient_get c path params) s)))
                 = sent (network s) @ [rq]
           \<and> rq_path rq = path
           \<and> rq_params rq = dict_set (case params of None \<Rightarrow> [] | Some p \<Rightarrow> p) ''token''
                                (JStr (gc_token c))
           \<and> fst (call_client (\<lambda>c. GloriaClient_get c path params) s)
                 = decode (upstream (network s) (sent (network s)) rq)"
proof -
  from assms get_client_frame(1)[of s] have n: "network s1 = network s" by simp
  obtain r c' n' where g: "GloriaClient_get c path params (network s1) = (r, c', n')"
    by (metis prod_cases3)
  from GloriaClient_get_sends[OF g] assms g n show ?thesis
    by (auto simp: call_client_def)
qed

text \<open>
  C8. With no client made yet and \<open>GLORIA_API_TOKEN\<close> absent from the environment,
  \<open>get_client\<close> raises the configuration error and leaves the process as it was: no client
  is made, so the next attempt raises again. Each tool that needs the client raises the
  same error, sends nothing and returns no payload.
\<close>

theorem missing_token_is_fatal:
  assumes "g_client s = None" and "environ s ''GLORIA_API_TOKEN'' = None"
  shows "get_client s = (Inl (RuntimeError ''GLORIA_API_TOKEN environment variable is required''), s)
    \<and> fst (get_client (snd (get_client s)))
        = Inl (RuntimeError ''GLORIA_API_TOKEN environment variable is required'')
    \<and> get_latest_news category limit s
        = (Inl (RuntimeError ''GLORIA_API_TOKEN environment variable is required''), s)
    \<and> get_news_recap category' timeframe s
        = (Inl (RuntimeError ''GLORIA_API_TOKEN environment variable is required''), s)
    \<and> search_news query limit' s
        = (Inl (RuntimeError ''GLORIA_API_TOKEN environment variable is required''), s)
    \<and> get_categories s
        = (Inl (RuntimeError ''GLORIA_API_TOKEN environment variable is required''), s)
    \<and> get_news_item ident s
        = (Inl (RuntimeError ''GLORIA_API_TOKEN environment variable is required''), s)"
  using assms
  by (simp add: get_client_missing_token call_client_missing_token get_latest_news_def
        get_news_recap_def search_news_def get_categories_def get_news_item_def)

theorem missing_token_is_fatal_witness:
  "get_client (sample_process [(''MCP_TRANSPORT'', ''stdio'')] (Reply 200 (Some JNull)))
     = (Inl (RuntimeError ''GLORIA_API_TOKEN environment variable is required''),
        sample_process [(''MCP_TRANSPORT'', ''stdio'')] (Reply 200 (Some JNull)))
   \<and> get_news_item ''42'' (sample_process [(''MCP_TRANSPORT'', ''stdio'')] (Reply 200 (Some JNull)))
     = (Inl (RuntimeError ''GLORIA_API_TOKEN environment variable is required''),
        sample_process [(''MCP_TRANSPORT'', ''stdio'')] (Reply 200 (Some JNull)))
   \<and> g_client (snd (get_latest_news None 5 (sample_process [(''MCP_TRANSPORT'', ''stdio'')] (Reply 200 (Some JNull)))))
     = None
   \<and> sent (network (snd (get_latest_news None 5
        (sample_process [(''MCP_TRANSPORT'', ''stdio'')] (Reply 200 (Some JNull)))))) = []"
proof -
  let ?s = "sample_process [(''MCP_TRANSPORT'', ''stdio'')] (Reply 200 (Some JNull))"
  have a: "g_client ?s = None" and b: "environ ?s ''GLORIA_API_TOKEN'' = None"
    and c: "sent (network ?s) = []"
    by (simp_all add: sample_process_def sample_net_def)
  from missing_token_is_fatal [OF a b, of None 5 _ _ _ _ "''42''"] a c
  show ?thesis by simp
qed

lemma call_get_news:
  assumes "get_client s = (Inr c, s1)"
  shows "\<exists>rq. sent (network (snd (call_client (\<lambda>c. GloriaClient_get_news c category keyword limit) s)))
                 = sent (network s) @ [rq]
           \<and> rq_path rq = ''/news''
           \<and> map_of (rq_params rq) ''limit'' = Some (JInt limit)"
proof -
  have eq: "(\<lambda>c. GloriaClient_get_news c category keyword limit)
          = (\<lambda>c. GloriaClient_get c ''/news'' (Some (news_params category keyword limit)))"
    by (simp add: GloriaClient_get_news_def fun_eq_iff)
  have l: "map_of (dict_set (news_params category keyword limit) ''token'' v) ''limit''
          = Some (JInt limit)" for v
    by (simp add: map_of_dict_set news_params_eq)
  from call_client_get[OF assms, of "''/news''" "Some (news_params category keyword limit)"]
  obtain rq where
    "sent (network (snd (call_client (\<lambda>c. GloriaClient_get c ''/news''
        (Some (news_params category keyword limit))) s))) = sent (network s) @ [rq]"
    "rq_path rq = ''/news''"
    "rq_params rq = dict_set (news_params category keyword limit) ''token'' (JStr (gc_token c))"
    by auto
  then show ?thesis unfolding eq using l by auto
qed

lemma tool_state:
  "snd (get_latest_news category limit s)
     = snd (call_client (\<lambda>c. GloriaClient_get_news c category None (max 1 (min 10 limit))) s)"
  "snd (search_news query limit s)
     = snd (call_client (\<lambda>c. GloriaClient_get_news c None (Some query) (max 1 (min 5 limit))) s)"
  by (simp_all add: get_latest_news_def search_news_def Let_def split: prod.splits sum.splits)

text \<open>
  C4. When a client is available, \<open>get_latest_news\<close> sends one request to \<open>/news\<close> whose
  \<open>limit\<close> is the argument clamped into 1..10, and \<open>search_news\<close> one whose \<open>limit\<close> is the
  argument clamped into 1..5. Each tool behaves on a limit as on its clamped value: 0 as 1,
  999 as 10 (as 5 for \<open>search_news\<close>).
\<close>

theorem limit_is_clamped:
  assumes "get_client s = (Inr c, s1)"
  shows "(\<exists>rq. sent (network (snd (get_latest_news category limit s))) = sent (network s) @ [rq]
            \<and> rq_path rq = ''/news''
            \<and> map_of (rq_params rq) ''limit'' = Some (JInt (max 1 (min 10 limit))))
    \<and> (\<exists>rq. sent (network (snd (search_news query limit s))) = sent (network s) @ [rq]
            \<and> rq_path rq = ''/news''
            \<and> map_of (rq_params rq) ''limit'' = Some (JInt (max 1 (min 5 limit))))
    \<and> 1 \<le> max 1 (min 10 limit) \<and> max 1 (min 10 limit) \<le> 10
    \<and> 1 \<le> max 1 (min 5 limit) \<and> max 1 (min 5 limit) \<le> 5
    \<and> get_latest_news category limit s = get_latest_news category (max 1 (min 10 limit)) s
    \<and> search_news query limit s = search_news query (max 1 (min 5 limit)) s
    \<and> get_latest_news category 0 s = get_latest_news category 1 s
    \<and> get_latest_news category 999 s = get_latest_news category 10 s
    \<and> search_news query 0 s = search_news query 1 s
    \<and> search_news query 999 s = search_news query 5 s"
proof -
  have a: "\<exists>rq. sent (network (snd (get_latest_news category limit s))) = sent (network s) @ [rq]
            \<and> rq_path rq = ''/news''
            \<and> map_of (rq_params rq) ''limit'' = Some (JInt (max 1 (min 10 limit)))"
    unfolding tool_state by (rule call_get_news[OF assms])
  have b: "\<exists>rq. sent (network (snd (search_news query limit s))) = sent (network s) @ [rq]
            \<and> rq_path rq = ''/news''
            \<and> map_of (rq_params rq) ''limit'' = Some (JInt (max 1 (min 5 limit)))"
    unfolding tool_state by (rule call_get_news[OF assms])
  have c: "get_latest_news category limit s = get_latest_news category (max 1 (min 10 limit)) s"
    "search_news query limit s = search_news query (max 1 (min 5 limit)) s"
    by (simp_all add: get_latest_news_def search_news_def)
  have d: "get_latest_news category 0 s = get_latest_news category 1 s"
    "get_latest_news category 999 s = get_latest_news category 10 s"
    "search_news query 0 s = search_news query 1 s"
    "search_news query 999 s = search_news query 5 s"
    by (simp_all add: get_latest_news_def search_news_def)
  have e: "1 \<le> max 1 (min 10 limit)" "max 1 (min 10 limit) \<le> 10"
    "1 \<le> max 1 (min 5 limit)" "max 1 (min 5 limit) \<le> 5"
    by simp_all
  from a b c d e show ?thesis by (intro conjI) assumption+
qed

lemma sample_get_client:
  "get_client (sample_process [(''GLORIA_API_TOKEN'', ''tok'')] answer)
     = (Inr (GloriaClient_init ''https://ai-hub.cryptobriefing.com'' ''tok''),
        (sample_process [(''GLORIA_API_TOKEN'', ''tok'')] answer)
          \<lparr>g_client := Some (GloriaClient_init ''https://ai-hub.cryptobriefing.com'' ''tok'')\<rparr>)"
  by (simp add: get_client_def sample_process_def environ_get_def Let_def)

theorem limit_is_clamped_witness:
  "(\<exists>rq. sent (network (snd (get_latest_news (Some ''bitcoin'') 999
              (sample_process [(''GLORIA_API_TOKEN'', ''tok'')] (Reply 200 (Some (JList []))))))) = [rq]
        \<and> map_of (rq_params rq) ''limit'' = Some (JInt 10))
   \<and> (\<exists>rq. sent (network (snd (search_news ''ETF'' 0
              (sample_process [(''GLORIA_API_TOKEN'', ''tok'')] (Reply 200 (Some (JList []))))))) = [rq]
        \<and> map_of (rq_params rq) ''limit'' = Some (JInt 1))"
proof -
  let ?s = "sample_process [(''GLORIA_API_TOKEN'', ''tok'')] (Reply 200 (Some (JList [])))"
  have z: "sent (network ?s) = []" by (simp add: sample_process_def sample_net_def)
  note g = sample_get_client [of "Reply 200 (Some (JList []))"]
  note a = limit_is_clamped [OF g, where category = "Some ''bitcoin''" and limit = 999
             and query = "''ETF''", THEN conjunct1]
  note b = limit_is_clamped [OF g, where category = "Some ''bitcoin''" and limit = 0
             and query = "''ETF''", THEN conjunct2, THEN conjunct1]
  from a b z show ?thesis by auto
qed

lemma recap_method:
  "(\<lambda>c. GloriaClient_get_recap c category timeframe)
     = (\<lambda>c. GloriaClient_get c ''/recaps''
              (Some [(''feed_category'', JStr category), (''timeframe'', JStr timeframe)]))"
  by (simp add: fun_eq_iff GloriaClient_get_recap_def)

lemma item_method:
  "(\<lambda>c. GloriaClient_get_news_by_id c ident)
     = (\<lambda>c. GloriaClient_get c (''/news/'' @ ident) None)"
  by (simp add: fun_eq_iff GloriaClient_get_news_by_id_def)

lemma recap_tool_split:
  "snd (get_news_recap category timeframe s)
     = snd (call_client (\<lambda>c. GloriaClient_get c ''/recaps''
              (Some [(''feed_category'', JStr category), (''timeframe'', JStr timeframe)])) s)"
  "fst (get_news_recap category timeframe s)
     = (case fst (call_client (\<lambda>c. GloriaClient_get c ''/recaps''
              (Some [(''feed_category'', JStr category), (''timeframe'', JStr timeframe)])) s) of
          Inl e \<Rightarrow> Inl e
        | Inr result \<Rightarrow>
            if result = JNull
            then Inr (JObj [(''error'',
                   JStr (''No recap found for category '' @ apo @ category @ apo @
                         '' with timeframe '' @ apo @ timeframe @ apo @ ''.''))])
            else format_recap result)"
  unfolding get_news_recap_def recap_method by (simp_all split: prod.splits sum.splits)

lemma item_tool_split:
  "snd (get_news_item ident s)
     = snd (call_client (\<lambda>c. GloriaClient_get c (''/news/'' @ ident) None) s)"
  "fst (get_news_item ident s)
     = (case fst (call_client (\<lambda>c. GloriaClient_get c (''/news/'' @ ident) None) s) of
          Inl e \<Rightarrow> Inl e
        | Inr item \<Rightarrow>
            if item = JNull
            then Inr (JObj [(''error'',
                   JStr (''News item '' @ apo @ ident @ apo @ '' not found.''))])
            else truncate_news item)"
  unfolding get_news_item_def item_method by (simp_all split: prod.splits sum.splits)

text \<open>
  C5. When a client is available, \<open>get_news_recap\<close> sends one request to \<open>/recaps\<close> with the
  category and the timeframe. If the upstream answers null, the tool returns the dict with
  the one key \<open>error\<close> and the message naming both; if it answers another value, the tool
  returns \<open>format_recap\<close> of it; if the request fails, the failure is raised. \<open>get_news_item\<close>
  does the same with \<open>/news/<id>\<close>, its own message and \<open>truncate_news\<close>.
\<close>

theorem not_found_payloads:
  assumes "get_client s = (Inr c, s1)"
  shows "(\<exists>rq. sent (network (snd (get_news_recap category timeframe s))) = sent (network s) @ [rq]
            \<and> rq_path rq = ''/recaps''
            \<and> rq_params rq = [(''feed_category'', JStr category), (''timeframe'', JStr timeframe),
                               (''token'', JStr (gc_token c))]
            \<and> fst (get_news_recap category timeframe s)
                = (case decode (upstream (network s) (sent (network s)) rq) of
                     Inl e \<Rightarrow> Inl e
                   | Inr result \<Rightarrow>
                       if result = JNull
                       then Inr (JObj [(''error'',
                              JStr (''No recap found for category '' @ apo @ category @ apo @
                                    '' with timeframe '' @ apo @ timeframe @ apo @ ''.''))])
                       else format_recap result))
    \<and> (\<exists>rq. sent (network (snd (get_news_item ident s))) = sent (network s) @ [rq]
            \<and> rq_path rq = ''/news/'' @ ident
            \<and> rq_params rq = [(''token'', JStr (gc_token c))]
            \<and> fst (get_news_item ident s)
                = (case decode (upstream (network s) (sent (network s)) rq) of
                     Inl e \<Rightarrow> Inl e
                   | Inr item \<Rightarrow>
                       if item = JNull
                       then Inr (JObj [(''error'',
                              JStr (''News item '' @ apo @ ident @ apo @ '' not found.''))])
                       else truncate_news item))"
proof
  from call_client_get [OF assms, of "''/recaps''"
         "Some [(''feed_category'', JStr category), (''timeframe'', JStr timeframe)]"]
  show "\<exists>rq. sent (network (snd (get_news_recap category timeframe s))) = sent (network s) @ [rq]
            \<and> rq_path rq = ''/recaps''
            \<and> rq_params rq = [(''feed_category'', JStr category), (''timeframe'', JStr timeframe),
                               (''token'', JStr (gc_token c))]
            \<and> fst (get_news_recap category timeframe s)
                = (case decode (upstream (network s) (sent (network s)) rq) of
                     Inl e \<Rightarrow> Inl e
                   | Inr result \<Rightarrow>
                       if result = JNull
                       then Inr (JObj [(''error'',
                              JStr (''No recap found for category '' @ apo @ category @ apo @
                                    '' with timeframe '' @ apo @ timeframe @ apo @ ''.''))])
                       else format_recap result)"
    unfolding recap_tool_split by auto
next
  from call_client_get [OF assms, of "''/news/'' @ ident" None]
  show "\<exists>rq. sent (network (snd (get_news_item ident s))) = sent (network s) @ [rq]
            \<and> rq_path rq = ''/news/'' @ ident
            \<and> rq_params rq = [(''token'', JStr (gc_token c))]
            \<and> fst (get_news_item ident s)
                = (case decode (upstream (network s) (sent (network s)) rq) of
                     Inl e \<Rightarrow> Inl e
                   | Inr item \<Rightarrow>
                       if item = JNull
                       then Inr (JObj [(''error'',
                              JStr (''News item '' @ apo @ ident @ apo @ '' not found.''))])
                       else truncate_news item)"
    unfolding item_tool_split by auto
qed

theorem not_found_payloads_witness:
  "fst (get_news_recap ''nonexistent-category'' ''12h''
          (sample_process [(''GLORIA_API_TOKEN'', ''tok'')] (Reply 200 (Some JNull))))
     = Inr (JObj [(''error'',
         JStr (''No recap found for category '' @ [CHR 0x27] @ ''nonexistent-category'' @ [CHR 0x27]
               @ '' with timeframe '' @ [CHR 0x27] @ ''12h'' @ [CHR 0x27] @ ''.''))])
   \<and> fst (get_news_item ''42''
          (sample_process [(''GLORIA_API_TOKEN'', ''tok'')] (Reply 200 (Some JNull))))
     = Inr (JObj [(''error'',
         JStr (''News item '' @ [CHR 0x27] @ ''42'' @ [CHR 0x27] @ '' not found.''))])
   \<and> fst (get_news_recap ''bitcoin'' ''1h''
          (sample_process [(''GLORIA_API_TOKEN'', ''tok'')]
             (Reply 200 (Some (JObj [(''recap'', JStr ''calm'')])))))
     = Inr (JObj [(''feed_category'', JNull), (''timeframe'', JNull),
                  (''recap'', JStr ''calm''), (''created_at'', JNull)])
   \<and> fst (get_news_item ''42''
          (sample_process [(''GLORIA_API_TOKEN'', ''tok'')] (Reply 503 None)))
     = Inl (HTTPStatusError 503)"
proof -
  have u: "upstream (network (sample_process env answer)) h rq = answer" for env answer h rq
    by (simp add: sample_process_def sample_net_def sample_upstream_def)
  note null = not_found_payloads [OF sample_get_client [of "Reply 200 (Some JNull)"],
                where category = "''nonexistent-category''" and timeframe = "''12h''"
                  and ident = "''42''"]
  note some = not_found_payloads
                [OF sample_get_client [of "Reply 200 (Some (JObj [(''recap'', JStr ''calm'')]))"],
                 where category = "''bitcoin''" and timeframe = "''1h''" and ident = "''42''",
                 THEN conjunct1]
  note down = not_found_payloads [OF sample_get_client [of "Reply 503 None"],
                where category = "''bitcoin''" and timeframe = "''1h''" and ident = "''42''",
                THEN conjunct2]
  from null have 1:
    "fst (get_news_recap ''nonexistent-category'' ''12h''
            (sample_process [(''GLORIA_API_TOKEN'', ''tok'')] (Reply 200 (Some JNull))))
       = Inr (JObj [(''error'',
           JStr (''No recap found for category '' @ [CHR 0x27] @ ''nonexistent-category'' @ [CHR 0x27]
                 @ '' with timeframe '' @ [CHR 0x27] @ ''12h'' @ [CHR 0x27] @ ''.''))])"
    "fst (get_news_item ''42''
            (sample_process [(''GLORIA_API_TOKEN'', ''tok'')] (Reply 200 (Some JNull))))
       = Inr (JObj [(''error'',
           JStr (''News item '' @ [CHR 0x27] @ ''42'' @ [CHR 0x27] @ '' not found.''))])"
    by (auto simp: u apo_def)
  from some have 2:
    "fst (get_news_recap ''bitcoin'' ''1h''
            (sample_process [(''GLORIA_API_TOKEN'', ''tok'')]
               (Reply 200 (Some (JObj [(''recap'', JStr ''calm'')])))))
       = Inr (JObj [(''feed_category'', JNull), (''timeframe'', JNull),
                    (''recap'', JStr ''calm''), (''created_at'', JNull)])"
    by (auto simp: u format_recap_def bindE_def)
  from down have 3:
    "fst (get_news_item ''42''
            (sample_process [(''GLORIA_API_TOKEN'', ''tok'')] (Reply 503 None)))
       = Inl (HTTPStatusError 503)"
    by (auto simp: u)
  from 1 2 3 show ?thesis by (intro conjI) assumption+
qed

lemma render_lines_bad:
  "JObj d \<in> set cats \<Longrightarrow> ''code'' \<notin> set (keys d) \<or> ''name'' \<notin> set (keys d) \<Longrightarrow>
   isl (render_lines str_of cats lines)"
proof (induction cats arbitrary: lines)
  case Nil
  then show ?case by simp
next
  case (Cons cat cats)
  show ?case
  proof (cases "cat = JObj d")
    case True
    from Cons.prems(2) have "map_of d ''code'' = None \<or> map_of d ''name'' = None"
      by (simp add: map_of_keys)
    with True show ?thesis
      by (auto simp: bindE_def split: option.splits)
  next
    case False
    with Cons.prems have "JObj d \<in> set cats" by simp
    from Cons.IH[OF this Cons.prems(2)] show ?thesis
      by (auto simp: bindE_def split: sum.splits)
  qed
qed

lemma render_categories_bad:
  "JObj d \<in> set cats \<Longrightarrow> ''code'' \<notin> set (keys d) \<or> ''name'' \<notin> set (keys d) \<Longrightarrow>
   isl (render_categories str_of (JList cats))"
  using render_lines_bad[of d cats str_of "[''Available Gloria AI news categories:'' @ [CHR 0x0A]]"]
  by (simp add: render_categories_def bindE_def isl_def split: sum.splits) force

lemma categories_resource_cases:
  "fst (call_client GloriaClient_get_categories s) = Inl e \<Longrightarrow>
     categories_resource str_of s = (fallback, snd (call_client GloriaClient_get_categories s))"
  "fst (call_client GloriaClient_get_categories s) = Inr cats \<Longrightarrow>
     isl (render_categories str_of cats) \<Longrightarrow>
     categories_resource str_of s = (fallback, snd (call_client GloriaClient_get_categories s))"
  by (auto simp: categories_resource_def categories_body_def split: prod.splits sum.splits)

lemma recap_info_get:
  "recap_info str_of (case map_of d ''recap_timeframe'' of Some v \<Rightarrow> v | None \<Rightarrow> JNull)
     = (case map_of d ''recap_timeframe'' of
          None \<Rightarrow> '' (no recaps)''
        | Some r \<Rightarrow> if py_truthy r then '' (recaps every '' @ fmt str_of r @ '')''
                    else '' (no recaps)'')"
  by (simp add: recap_info_def split: option.splits)

lemma render_lines_ok:
  "\<forall>(d, code, name) \<in> set rs. map_of d ''code'' = Some code \<and> map_of d ''name'' = Some name \<Longrightarrow>
   render_lines str_of (map (\<lambda>(d, code, name). JObj d) rs) lines
     = Inr (lines @ map (\<lambda>(d, code, name).
              ''- '' @ fmt str_of code @ '': '' @ fmt str_of name @
              (case map_of d ''recap_timeframe'' of
                 None \<Rightarrow> '' (no recaps)''
               | Some r \<Rightarrow> if py_truthy r then '' (recaps every '' @ fmt str_of r @ '')''
                           else '' (no recaps)'')) rs)"
proof (induction rs arbitrary: lines)
  case Nil
  show ?case by simp
next
  case (Cons r rs)
  obtain d code name where r: "r = (d, code, name)" by (cases r)
  from Cons.prems r have c: "map_of d ''code'' = Some code" "map_of d ''name'' = Some name"
    and rest: "\<forall>(d, code, name) \<in> set rs.
                 map_of d ''code'' = Some code \<and> map_of d ''name'' = Some name"
    by simp_all
  show ?case
    unfolding r using c Cons.IH[OF rest]
    by (simp add: bindE_def recap_info_get)
qed

lemma categories_resource_renders:
  assumes "fst (call_client GloriaClient_get_categories s)
             = Inr (JList (map (\<lambda>(d, code, name). JObj d) rs))"
    and "\<forall>(d, code, name) \<in> set rs.
           map_of d ''code'' = Some code \<and> map_of d ''name'' = Some name"
  shows "categories_resource str_of s
     = (join [CHR 0x0A]
          ((''Available Gloria AI news categories:'' @ [CHR 0x0A]) #
           map (\<lambda>(d, code, name).
              ''- '' @ fmt str_of code @ '': '' @ fmt str_of name @
              (case map_of d ''recap_timeframe'' of
                 None \<Rightarrow> '' (no recaps)''
               | Some r \<Rightarrow> if py_truthy r then '' (recaps every '' @ fmt str_of r @ '')''
                           else '' (no recaps)'')) rs),
        snd (call_client GloriaClient_get_categories s))"
proof -
  obtain s' where c: "call_client GloriaClient_get_categories s
                        = (Inr (JList (map (\<lambda>(d, code, name). JObj d) rs)), s')"
    using assms(1) by (cases "call_client GloriaClient_get_categories s") simp
  show ?thesis
    by (simp add: categories_resource_def categories_body_def c render_categories_def bindE_def
          render_lines_ok[OF assms(2)])
qed


lemma categories_resource_no_recaps:
  assumes "fst (call_client GloriaClient_get_categories s)
             = Inr (JList (map (\<lambda>(d, code, name). JObj d) ps))"
    and "\<forall>(d, code, name) \<in> set ps.
           map_of d ''code'' = Some (JStr code) \<and> map_of d ''name'' = Some (JStr name)
           \<and> (map_of d ''recap_timeframe'' = None \<or> map_of d ''recap_timeframe'' = Some JNull)"
  shows "categories_resource str_of s
     = (join [CHR 0x0A]
          ((''Available Gloria AI news categories:'' @ [CHR 0x0A]) #
           map (\<lambda>(d, code, name). ''- '' @ code @ '': '' @ name @ '' (no recaps)'') ps),
        snd (call_client GloriaClient_get_categories s))"
proof -
  let ?rs = "map (\<lambda>(d, code, name). (d, JStr code, JStr name)) ps"
  have m: "map (\<lambda>(d, code, name). JObj d) ?rs = map (\<lambda>(d, code, name). JObj d) ps"
    by (simp add: case_prod_beta)
  have w: "\<forall>(d, code, name) \<in> set ?rs.
             map_of d ''code'' = Some code \<and> map_of d ''name'' = Some name"
    using assms(2) by auto
  have l: "map (\<lambda>(d, code, name).
              ''- '' @ fmt str_of code @ '': '' @ fmt str_of name @
              (case map_of d ''recap_timeframe'' of
                 None \<Rightarrow> '' (no recaps)''
               | Some r \<Rightarrow> if py_truthy r then '' (recaps every '' @ fmt str_of r @ '')''
                           else '' (no recaps)'')) ?rs
         = map (\<lambda>(d, code, name). ''- '' @ code @ '': '' @ name @ '' (no recaps)'') ps"
    using assms(2) by (auto simp: fmt_def)
  from categories_resource_renders[of s ?rs str_of, unfolded m, OF assms(1) w]
  show ?thesis unfolding l .
qed

lemma sample_call_categories:
  "fst (call_client GloriaClient_get_categories
          (sample_process [(''GLORIA_API_TOKEN'', ''tok'')] answer)) = decode answer"
  unfolding call_client_def sample_get_client
  by (simp add: GloriaClient_get_categories_def GloriaClient_get_def GloriaClient_client_def
        GloriaClient_init_def new_session_def AsyncClient_get_def sample_process_def
        sample_net_def sample_upstream_def Let_def)

text \<open>
  C10. The categories resource returns the fallback string when the fetch fails, and also when
  the fetched list holds a record without \<open>code\<close> or without \<open>name\<close>. When every record of
  the fetched list has both, the resource returns the rendered text: the heading, then one
  line per record, in order. A record whose \<open>recap_timeframe\<close> is absent or null gets the
  suffix \<open>(no recaps)\<close>, as does one whose value is false as a condition; any other value
  is named in the suffix.
\<close>

theorem categories_fallback:
  "(fst (call_client GloriaClient_get_categories s) = Inl e
      \<longrightarrow> categories_resource str_of s
            = (fallback, snd (call_client GloriaClient_get_categories s)))
   \<and> (fst (call_client GloriaClient_get_categories s) = Inr (JList cats)
       \<and> JObj d \<in> set cats \<and> (''code'' \<notin> set (keys d) \<or> ''name'' \<notin> set (keys d))
      \<longrightarrow> categories_resource str_of s
            = (fallback, snd (call_client GloriaClient_get_categories s)))
   \<and> (fst (call_client GloriaClient_get_categories s)
         = Inr (JList (map (\<lambda>(d, code, name). JObj d) ps))
       \<and> (\<forall>(d, code, name) \<in> set ps.
             map_of d ''code'' = Some (JStr code) \<and> map_of d ''name'' = Some (JStr name)
             \<and> (map_of d ''recap_timeframe'' = None
                  \<or> map_of d ''recap_timeframe'' = Some JNull))
      \<longrightarrow> categories_resource str_of s
            = (join [CHR 0x0A]
                 ((''Available Gloria AI news categories:'' @ [CHR 0x0A]) #
                  map (\<lambda>(d, code, name). ''- '' @ code @ '': '' @ name @ '' (no recaps)'') ps),
               snd (call_client GloriaClient_get_categories s)))
   \<and> (fst (call_client GloriaClient_get_categories s)
         = Inr (JList (map (\<lambda>(d, code, name). JObj d) rs))
       \<and> (\<forall>(d, code, name) \<in> set rs.
             map_of d ''code'' = Some code \<and> map_of d ''name'' = Some name)
      \<longrightarrow> categories_resource str_of s
            = (join [CHR 0x0A]
                 ((''Available Gloria AI news categories:'' @ [CHR 0x0A]) #
                  map (\<lambda>(d, code, name).
                     ''- '' @ fmt str_of code @ '': '' @ fmt str_of name @
                     (case map_of d ''recap_timeframe'' of
                        None \<Rightarrow> '' (no recaps)''
                      | Some r \<Rightarrow> if py_truthy r
                                  then '' (recaps every '' @ fmt str_of r @ '')''
                                  else '' (no recaps)'')) rs),
               snd (call_client GloriaClient_get_categories s)))"
proof (intro conjI impI)
  assume "fst (call_client GloriaClient_get_categories s) = Inl e"
  then show "categories_resource str_of s
            = (fallback, snd (call_client GloriaClient_get_categories s))"
    by (rule categories_resource_cases(1))
next
  assume a: "fst (call_client GloriaClient_get_categories s) = Inr (JList cats)
       \<and> JObj d \<in> set cats \<and> (''code'' \<notin> set (keys d) \<or> ''name'' \<notin> set (keys d))"
  then have "isl (render_categories str_of (JList cats))"
    using render_categories_bad by blast
  with a show "categories_resource str_of s
            = (fallback, snd (call_client GloriaClient_get_categories s))"
    using categories_resource_cases(2) by blast
next
  assume "fst (call_client GloriaClient_get_categories s)
         = Inr (JList (map (\<lambda>(d, code, name). JObj d) ps))
       \<and> (\<forall>(d, code, name) \<in> set ps.
             map_of d ''code'' = Some (JStr code) \<and> map_of d ''name'' = Some (JStr name)
             \<and> (map_of d ''recap_timeframe'' = None
                  \<or> map_of d ''recap_timeframe'' = Some JNull))"
  then show "categories_resource str_of s
            = (join [CHR 0x0A]
                 ((''Available Gloria AI news categories:'' @ [CHR 0x0A]) #
                  map (\<lambda>(d, code, name). ''- '' @ code @ '': '' @ name @ '' (no recaps)'') ps),
               snd (call_client GloriaClient_get_categories s))"
    using categories_resource_no_recaps by blast
next
  assume "fst (call_client GloriaClient_get_categories s)
         = Inr (JList (map (\<lambda>(d, code, name). JObj d) rs))
       \<and> (\<forall>(d, code, name) \<in> set rs.
             map_of d ''code'' = Some code \<and> map_of d ''name'' = Some name)"
  then show "categories_resource str_of s
            = (join [CHR 0x0A]
                 ((''Available Gloria AI news categories:'' @ [CHR 0x0A]) #
                  map (\<lambda>(d, code, name).
                     ''- '' @ fmt str_of code @ '': '' @ fmt str_of name @
                     (case map_of d ''recap_timeframe'' of
                        None \<Rightarrow> '' (no recaps)''
                      | Some r \<Rightarrow> if py_truthy r
                                  then '' (recaps every '' @ fmt str_of r @ '')''
                                  else '' (no recaps)'')) rs),
               snd (call_client GloriaClient_get_categories s))"
    using categories_resource_renders by blast
qed

theorem categories_fallback_witness:
  "fst (categories_resource sample_str_of
          (sample_process [(''GLORIA_API_TOKEN'', ''tok'')] (Failed TimeoutException)))
     = fallback
   \<and> fst (categories_resource sample_str_of
          (sample_process [(''GLORIA_API_TOKEN'', ''tok'')]
             (Reply 200 (Some (JList
                [JObj [(''code'', JStr ''btc''), (''name'', JStr ''Bitcoin'')],
                 JObj [(''name'', JStr ''Ether'')]])))))
     = fallback
   \<and> fst (categories_resource sample_str_of
          (sample_process [(''GLORIA_API_TOKEN'', ''tok'')]
             (Reply 200 (Some (JList
                [JObj [(''code'', JStr ''btc''), (''name'', JStr ''Bitcoin''),
                       (''recap_timeframe'', JNull)],
                 JObj [(''code'', JStr ''eth''), (''name'', JStr ''Ether'')]])))))
     = ''Available Gloria AI news categories:'' @ [CHR 0x0A, CHR 0x0A] @
       ''- btc: Bitcoin (no recaps)'' @ [CHR 0x0A] @ ''- eth: Ether (no recaps)''
   \<and> fst (categories_resource sample_str_of
          (sample_process [(''GLORIA_API_TOKEN'', ''tok'')]
             (Reply 200 (Some (JList
                [JObj [(''code'', JStr ''ai''), (''name'', JStr ''AI''),
                       (''recap_timeframe'', JStr ''1h'')],
                 JObj [(''code'', JStr ''eth''), (''name'', JStr ''Ether'')]])))))
     = ''Available Gloria AI news categories:'' @ [CHR 0x0A, CHR 0x0A] @
       ''- ai: AI (recaps every 1h)'' @ [CHR 0x0A] @ ''- eth: Ether (no recaps)''"
proof -
  let ?tok = "[(''GLORIA_API_TOKEN'', ''tok'')]"
  let ?down = "sample_process ?tok (Failed TimeoutException)"
  let ?bad = "[JObj [(''code'', JStr ''btc''), (''name'', JStr ''Bitcoin'')],
               JObj [(''name'', JStr ''Ether'')]]"
  let ?d1 = "[(''code'', JStr ''btc''), (''name'', JStr ''Bitcoin''), (''recap_timeframe'', JNull)]"
  let ?d2 = "[(''code'', JStr ''eth''), (''name'', JStr ''Ether'')]"
  let ?d3 = "[(''code'', JStr ''ai''), (''name'', JStr ''AI''), (''recap_timeframe'', JStr ''1h'')]"
  let ?ps = "[(?d1, ''btc'', ''Bitcoin''), (?d2, ''eth'', ''Ether'')]"
  let ?rs = "[(?d3, JStr ''ai'', JStr ''AI''), (?d2, JStr ''eth'', JStr ''Ether'')]"
  let ?sb = "sample_process ?tok (Reply 200 (Some (JList ?bad)))"
  let ?sp = "sample_process ?tok (Reply 200 (Some (JList [JObj ?d1, JObj ?d2])))"
  let ?sr = "sample_process ?tok (Reply 200 (Some (JList [JObj ?d3, JObj ?d2])))"
  have a: "fst (call_client GloriaClient_get_categories ?down) = Inl TimeoutException"
    by (simp add: sample_call_categories)
  have b: "fst (call_client GloriaClient_get_categories ?sb) = Inr (JList ?bad)"
    by (simp add: sample_call_categories)
  have c: "JObj [(''name'', JStr ''Ether'')] \<in> set ?bad"
    "''code'' \<notin> set (keys [(''name'', JStr ''Ether'')])"
    by (simp_all add: keys_def)
  have p: "fst (call_client GloriaClient_get_categories ?sp)
             = Inr (JList (map (\<lambda>(d, code, name). JObj d) ?ps))"
    by (simp add: sample_call_categories)
  have pw: "\<forall>(d, code, name) \<in> set ?ps.
             map_of d ''code'' = Some (JStr code) \<and> map_of d ''name'' = Some (JStr name)
             \<and> (map_of d ''recap_timeframe'' = None
                  \<or> map_of d ''recap_timeframe'' = Some JNull)"
    by simp
  have r: "fst (call_client GloriaClient_get_categories ?sr)
             = Inr (JList (map (\<lambda>(d, code, name). JObj d) ?rs))"
    by (simp add: sample_call_categories)
  have rw: "\<forall>(d, code, name) \<in> set ?rs.
             map_of d ''code'' = Some code \<and> map_of d ''name'' = Some name"
    by simp
  from categories_fallback
         [where s = ?down and e = TimeoutException and str_of = sample_str_of, THEN conjunct1] a
  have 1: "fst (categories_resource sample_str_of ?down) = fallback" by simp
  from categories_fallback
         [where s = ?sb and cats = ?bad and d = "[(''name'', JStr ''Ether'')]"
            and str_of = sample_str_of, THEN conjunct2, THEN conjunct1] b c
  have 2: "fst (categories_resource sample_str_of ?sb) = fallback" by simp
  from categories_fallback
         [where s = ?sp and ps = ?ps and str_of = sample_str_of,
          THEN conjunct2, THEN conjunct2, THEN conjunct1] p pw
  have 3: "fst (categories_resource sample_str_of ?sp)
     = ''Available Gloria AI news categories:'' @ [CHR 0x0A, CHR 0x0A] @
       ''- btc: Bitcoin (no recaps)'' @ [CHR 0x0A] @ ''- eth: Ether (no recaps)''"
    by simp
  from categories_fallback
         [where s = ?sr and rs = ?rs and str_of = sample_str_of,
          THEN conjunct2, THEN conjunct2, THEN conjunct2] r rw
  have 4: "fst (categories_resource sample_str_of ?sr)
     = ''Available Gloria AI news categories:'' @ [CHR 0x0A, CHR 0x0A] @
       ''- ai: AI (recaps every 1h)'' @ [CHR 0x0A] @ ''- eth: Ether (no recaps)''"
    by (simp add: fmt_def)
  from 1 2 3 4 show ?thesis by (intro conjI) assumption+
qed

end
